theory Spec2Isabelle
  imports Main "HOL-Library.Word"
begin

unbundle bit_operations_syntax

section \<open>The remote block server client of libkbfs\<close>

text \<open>
  A shallow embedding of \<^verbatim>\<open>libkbfs/bserver_remote.go\<close> (the remote block client and its
  connection handler) and of the server selection in the initialisation file of the same
  package. Go values are modelled as follows: a \<^verbatim>\<open>byte\<close> is an 8-bit word, a \<^verbatim>\<open>string\<close>
  is a list of 8-bit characters, a \<^verbatim>\<open>[]byte\<close> is an optional list (\<open>None\<close> is the
  \<^verbatim>\<open>nil\<close> slice), a fixed-size array is a list, an \<^verbatim>\<open>error\<close> result is an optional
  error (\<open>None\<close> is \<^verbatim>\<open>nil\<close>), and a function with several results returns a tuple.
  Logging does not influence any result and is left out.
\<close>

subsection \<open>Bytes, slices and errors\<close>

type_synonym byte = "8 word"

type_synonym slice = "byte list option"

definition elems :: "slice \<Rightarrow> byte list" where
  "elems s = (case s of None \<Rightarrow> [] | Some xs \<Rightarrow> xs)"

text \<open>
  The builtin \<^verbatim>\<open>copy(dst, src)\<close>: the first \<open>min (len dst) (len src)\<close> elements of
  \<open>dst\<close> are overwritten, the rest of \<open>dst\<close> is kept. The result is the new content of
  \<open>dst\<close>.
\<close>

definition copy :: "byte list \<Rightarrow> byte list \<Rightarrow> byte list" where
  "copy dst src = (let n = min (length dst) (length src) in take n src @ drop n dst)"

text \<open>
  Values of the interface \<^verbatim>\<open>error\<close>, by dynamic type: the throttle error of the block
  server (the only error type the file names), the two errors of \<^verbatim>\<open>encoding/hex\<close>, and
  any other error (transport, cancellation, not found, quota, ...), with its message.
\<close>

datatype error =
    BServerErrorThrottle string
  | InvalidByteError byte
  | ErrLength
  | OtherError string

subsection \<open>\<^verbatim>\<open>encoding/hex\<close>\<close>

definition fromHexChar :: "byte \<Rightarrow> byte \<times> bool" where
  "fromHexChar c =
     (if of_char CHR ''0'' \<le> c \<and> c \<le> of_char CHR ''9'' then (c - of_char CHR ''0'', True)
      else if of_char CHR ''a'' \<le> c \<and> c \<le> of_char CHR ''f'' then (c - of_char CHR ''a'' + 10, True)
      else if of_char CHR ''A'' \<le> c \<and> c \<le> of_char CHR ''F'' then (c - of_char CHR ''A'' + 10, True)
      else (0, False))"

text \<open>
  The loop of \<^verbatim>\<open>hex.Decode\<close> over the pairs of \<open>src\<close>; it stops at the first byte that
  is no hexadecimal digit. A trailing single byte is not looked at: the length test of
  \<open>hex_Decode\<close> comes first, as in the library of the Go releases of the time of this
  source. (Later releases report an invalid byte before an odd length; the two agree on
  which strings decode and on the bytes they decode to.)
\<close>

fun decode_pairs :: "byte list \<Rightarrow> byte list \<times> error option" where
  "decode_pairs (x # y # src) =
     (case fromHexChar x of
        (a, ok) \<Rightarrow>
          if \<not> ok then ([], Some (InvalidByteError x))
          else (case fromHexChar y of
                  (b, ok) \<Rightarrow>
                    if \<not> ok then ([], Some (InvalidByteError y))
                    else (case decode_pairs src of
                            (dst, err) \<Rightarrow>
                              if err \<noteq> None then ([], err)
                              else ((push_bit 4 a OR b) # dst, None))))"
| "decode_pairs src = ([], None)"

definition hex_Decode :: "byte list \<Rightarrow> byte list \<times> error option" where
  "hex_Decode src =
     (if length src mod 2 = 1 then ([], Some ErrLength) else decode_pairs src)"

definition hex_DecodeString :: "string \<Rightarrow> slice \<times> error option" where
  "hex_DecodeString s =
     (case hex_Decode (map of_char s) of
        (dst, err) \<Rightarrow> if err \<noteq> None then (None, err) else (Some dst, None))"

subsection \<open>The block protocol\<close>

type_synonym UID = string

record BlockIdCombo =
  BlockHash :: string
  ChargedTo :: UID

record EstablishSessionArg =
  User :: UID
  Sid :: string

record GetBlockRes =
  BlockKey :: string
  Buf :: slice

record PutBlockArg =
  Bid :: BlockIdCombo
  Folder :: string
  BlockKey :: string
  Buf :: slice

record IncBlockReferenceArg =
  Bid :: BlockIdCombo
  Nonce :: "byte list"
  Folder :: string
  ChargedTo :: UID

record DecBlockReferenceArg =
  Bid :: BlockIdCombo
  Nonce :: "byte list"
  Folder :: string
  ChargedTo :: UID

text \<open>A request on the wire: the method and its argument.\<close>

datatype rpc_call =
    Rpc_EstablishSession EstablishSessionArg
  | Rpc_GetBlock BlockIdCombo
  | Rpc_PutBlock PutBlockArg
  | Rpc_IncBlockReference IncBlockReferenceArg
  | Rpc_DecBlockReference DecBlockReferenceArg

text \<open>
  A \<^verbatim>\<open>GenericClient\<close> answers each request from the state \<open>'s\<close> of the far end, which
  the request may change. What the client does below the call (the transport, waiting for
  the connection, cancellation) is part of the answer.
\<close>

record 's GenericClient =
  call_EstablishSession :: "EstablishSessionArg \<Rightarrow> 's \<Rightarrow> error option \<times> 's"
  call_GetBlock :: "BlockIdCombo \<Rightarrow> 's \<Rightarrow> (GetBlockRes \<times> error option) \<times> 's"
  call_PutBlock :: "PutBlockArg \<Rightarrow> 's \<Rightarrow> error option \<times> 's"
  call_IncBlockReference :: "IncBlockReferenceArg \<Rightarrow> 's \<Rightarrow> error option \<times> 's"
  call_DecBlockReference :: "DecBlockReferenceArg \<Rightarrow> 's \<Rightarrow> error option \<times> 's"

text \<open>The far end and the requests issued so far, oldest first.\<close>

record 's world =
  remote :: 's
  issued :: "rpc_call list"

definition issue :: "rpc_call \<Rightarrow> ('s \<Rightarrow> 'r \<times> 's) \<Rightarrow> 's world \<Rightarrow> 'r \<times> 's world" where
  "issue c f w =
     (case f (remote w) of (r, s') \<Rightarrow> (r, \<lparr>remote = s', issued = issued w @ [c]\<rparr>))"

text \<open>The methods of \<^verbatim>\<open>keybase1.BlockClient\<close>: one request each.\<close>

definition EstablishSession ::
  "'s GenericClient \<Rightarrow> EstablishSessionArg \<Rightarrow> 's world \<Rightarrow> error option \<times> 's world" where
  "EstablishSession cli arg = issue (Rpc_EstablishSession arg) (call_EstablishSession cli arg)"

definition GetBlock ::
  "'s GenericClient \<Rightarrow> BlockIdCombo \<Rightarrow> 's world \<Rightarrow> (GetBlockRes \<times> error option) \<times> 's world" where
  "GetBlock cli bid = issue (Rpc_GetBlock bid) (call_GetBlock cli bid)"

definition PutBlock ::
  "'s GenericClient \<Rightarrow> PutBlockArg \<Rightarrow> 's world \<Rightarrow> error option \<times> 's world" where
  "PutBlock cli arg = issue (Rpc_PutBlock arg) (call_PutBlock cli arg)"

definition IncBlockReference ::
  "'s GenericClient \<Rightarrow> IncBlockReferenceArg \<Rightarrow> 's world \<Rightarrow> error option \<times> 's world" where
  "IncBlockReference cli arg = issue (Rpc_IncBlockReference arg) (call_IncBlockReference cli arg)"

definition DecBlockReference ::
  "'s GenericClient \<Rightarrow> DecBlockReferenceArg \<Rightarrow> 's world \<Rightarrow> error option \<times> 's world" where
  "DecBlockReference cli arg = issue (Rpc_DecBlockReference arg) (call_DecBlockReference cli arg)"

subsection \<open>The handler \<^verbatim>\<open>BlockServerRemote\<close>\<close>

text \<open>
  The identity collaborator: what its two lookups return when \<^verbatim>\<open>OnConnect\<close> calls them.
\<close>

record KBPKI =
  GetCurrentToken :: "string \<times> error option"
  GetCurrentUID :: "UID \<times> error option"

record Config =
  KBPKI :: KBPKI

text \<open>
  A \<^verbatim>\<open>context.Context\<close>: \<open>Done\<close> is \<open>Some e\<close> when the context is cancelled before the
  awaited call delivers its result, \<open>e\<close> being \<^verbatim>\<open>ctx.Err()\<close>.
\<close>

record Context =
  Done :: "error option"

record 's BlockServerRemote =
  config :: Config
  clientFactory :: "Context \<Rightarrow> 's GenericClient"
  blkSrvAddr :: string

definition ShouldThrottle :: "'s BlockServerRemote \<Rightarrow> error option \<Rightarrow> bool" where
  "ShouldThrottle b err =
     (case err of
        None \<Rightarrow> False
      | Some e \<Rightarrow> (case e of BServerErrorThrottle m \<Rightarrow> True | _ \<Rightarrow> False))"

text \<open>
  Modelled from the spec: \<^verbatim>\<open>runUnlessCanceled\<close> is defined outside the files at hand.
  Section 4.2 binds every call to the caller's cancellation signal: the call is started, and
  if the cancellation fires while it is outstanding the caller gets the cancellation error
  instead of the call's result.
\<close>

definition runUnlessCanceled ::
  "Context \<Rightarrow> ('w \<Rightarrow> error option \<times> 'w) \<Rightarrow> 'w \<Rightarrow> error option \<times> 'w" where
  "runUnlessCanceled ctx fn w =
     (case fn w of
        (err, w') \<Rightarrow> (case Done ctx of Some c \<Rightarrow> (Some c, w') | None \<Rightarrow> (err, w')))"

text \<open>The parameter \<^verbatim>\<open>conn\<close> of \<^verbatim>\<open>OnConnect\<close> is not used by its body and is left out.\<close>

definition OnConnect ::
  "'s BlockServerRemote \<Rightarrow> Context \<Rightarrow> 's GenericClient \<Rightarrow> 's world \<Rightarrow> error option \<times> 's world" where
  "OnConnect b ctx cli w =
     (case GetCurrentToken (KBPKI (config b)) of
        (token, err) \<Rightarrow>
          if err \<noteq> None then (err, w)
          else (case GetCurrentUID (KBPKI (config b)) of
                  (uid, err) \<Rightarrow>
                    if err \<noteq> None then (err, w)
                    else (let arg = \<lparr>User = uid, Sid = token\<rparr>
                          in runUnlessCanceled ctx (EstablishSession cli arg) w)))"

definition client :: "'s BlockServerRemote \<Rightarrow> Context \<Rightarrow> 's GenericClient" where
  "client b ctx = clientFactory b ctx"

subsection \<open>The block store operations\<close>

text \<open>
  Modelled from the spec: the interface \<^verbatim>\<open>BlockContext\<close> and its getters are declared
  outside the files at hand. Section 3 gives a block context as the triple of creator, writer
  and an 8-byte reference nonce; the getters read the fields.
\<close>

record BlockContext =
  creator :: UID
  writer :: UID
  refNonce :: "byte list"

definition GetCreator :: "BlockContext \<Rightarrow> UID" where
  "GetCreator c = creator c"

definition GetWriter :: "BlockContext \<Rightarrow> UID" where
  "GetWriter c = writer c"

definition GetRefNonce :: "BlockContext \<Rightarrow> byte list" where
  "GetRefNonce c = refNonce c"

text \<open>
  Modelled from the spec: the array type of the nonce is declared outside the files at
  hand; Section 3 gives its length as 8 bytes.
\<close>

definition BlockRefNonce_len :: nat where
  "BlockRefNonce_len = 8"

record BlockCryptKeyServerHalf =
  ServerHalf :: "byte list"

text \<open>
  Declarations of the package that the operations use and the files at hand do not hold:
  the string forms of block IDs, folder IDs and server halves, and the length of the array
  \<^verbatim>\<open>ServerHalf\<close>. The operations take them as a parameter.
\<close>

record ('bid, 'tlf) decls =
  BlockID_String :: "'bid \<Rightarrow> string"
  TlfID_String :: "'tlf \<Rightarrow> string"
  ServerHalf_String :: "BlockCryptKeyServerHalf \<Rightarrow> string"
  ServerHalf_len :: nat

text \<open>The zero value \<^verbatim>\<open>BlockCryptKeyServerHalf{}\<close>.\<close>

definition zero_ServerHalf :: "('bid, 'tlf) decls \<Rightarrow> BlockCryptKeyServerHalf" where
  "zero_ServerHalf D = \<lparr>ServerHalf = replicate (ServerHalf_len D) 0\<rparr>"

definition Get ::
  "('bid, 'tlf) decls \<Rightarrow> 's BlockServerRemote \<Rightarrow> Context \<Rightarrow> 'bid \<Rightarrow> BlockContext \<Rightarrow> 's world
     \<Rightarrow> (slice \<times> BlockCryptKeyServerHalf \<times> error option) \<times> 's world" where
  "Get D b ctx id' context w =
     (let bid = \<lparr>BlockHash = BlockID_String D id',
                 BlockIdCombo.ChargedTo = GetWriter context\<rparr>
      in case GetBlock (client b ctx) bid w of
           ((res, err), w') \<Rightarrow>
             if err \<noteq> None then ((None, zero_ServerHalf D, err), w')
             else (let bk = zero_ServerHalf D
                   in case hex_DecodeString (GetBlockRes.BlockKey res) of
                        (kbuf, err) \<Rightarrow>
                          if err \<noteq> None then ((None, zero_ServerHalf D, err), w')
                          else ((GetBlockRes.Buf res,
                                 bk\<lparr>ServerHalf := copy (ServerHalf bk) (elems kbuf)\<rparr>,
                                 None), w')))"

definition Put ::
  "('bid, 'tlf) decls \<Rightarrow> 's BlockServerRemote \<Rightarrow> Context \<Rightarrow> 'bid \<Rightarrow> 'tlf \<Rightarrow> BlockContext
     \<Rightarrow> slice \<Rightarrow> BlockCryptKeyServerHalf \<Rightarrow> 's world \<Rightarrow> error option \<times> 's world" where
  "Put D b ctx id' tlfID context buf serverHalf w =
     (let arg = \<lparr>PutBlockArg.Bid = \<lparr>BlockHash = BlockID_String D id',
                                    BlockIdCombo.ChargedTo = GetWriter context\<rparr>,
                 PutBlockArg.Folder = TlfID_String D tlfID,
                 PutBlockArg.BlockKey = ServerHalf_String D serverHalf,
                 PutBlockArg.Buf = buf\<rparr>
      in PutBlock (client b ctx) arg w)"

definition AddBlockReference ::
  "('bid, 'tlf) decls \<Rightarrow> 's BlockServerRemote \<Rightarrow> Context \<Rightarrow> 'bid \<Rightarrow> 'tlf \<Rightarrow> BlockContext
     \<Rightarrow> 's world \<Rightarrow> error option \<times> 's world" where
  "AddBlockReference D b ctx id' tlfID context w =
     (let arg = \<lparr>IncBlockReferenceArg.Bid = \<lparr>BlockHash = BlockID_String D id',
                                             BlockIdCombo.ChargedTo = GetCreator context\<rparr>,
                 IncBlockReferenceArg.Nonce = replicate BlockRefNonce_len 0,
                 IncBlockReferenceArg.Folder = TlfID_String D tlfID,
                 IncBlockReferenceArg.ChargedTo = GetWriter context\<rparr>;
          nonce = GetRefNonce context;
          arg = arg\<lparr>IncBlockReferenceArg.Nonce := copy (IncBlockReferenceArg.Nonce arg) nonce\<rparr>
      in IncBlockReference (client b ctx) arg w)"

definition RemoveBlockReference ::
  "('bid, 'tlf) decls \<Rightarrow> 's BlockServerRemote \<Rightarrow> Context \<Rightarrow> 'bid \<Rightarrow> 'tlf \<Rightarrow> BlockContext
     \<Rightarrow> 's world \<Rightarrow> error option \<times> 's world" where
  "RemoveBlockReference D b ctx id' tlfID context w =
     (let arg = \<lparr>DecBlockReferenceArg.Bid = \<lparr>BlockHash = BlockID_String D id',
                                             BlockIdCombo.ChargedTo = GetCreator context\<rparr>,
                 DecBlockReferenceArg.Nonce = replicate BlockRefNonce_len 0,
                 DecBlockReferenceArg.Folder = TlfID_String D tlfID,
                 DecBlockReferenceArg.ChargedTo = GetWriter context\<rparr>;
          nonce = GetRefNonce context;
          arg = arg\<lparr>DecBlockReferenceArg.Nonce := copy (DecBlockReferenceArg.Nonce arg) nonce\<rparr>
      in DecBlockReference (client b ctx) arg w)"

subsection \<open>Selecting the servers at initialisation\<close>

text \<open>
  The process environment, read through \<^verbatim>\<open>os.Getenv\<close>: a variable that is not set reads
  as the empty string. The names \<^verbatim>\<open>EnvMDServerAddr\<close> and \<^verbatim>\<open>EnvBServerAddr\<close> of the two
  variables are constants declared outside the files at hand; the functions take them as
  parameters.
\<close>

type_synonym environ = "string \<rightharpoonup> string"

definition os_Getenv :: "environ \<Rightarrow> string \<Rightarrow> string" where
  "os_Getenv env k = (case env k of None \<Rightarrow> [] | Some v \<Rightarrow> v)"

text \<open>
  The servers are given by the constructor call that builds them (the argument
  \<^verbatim>\<open>config\<close>, the same in all of them, is left out), and a path by the call of
  \<^verbatim>\<open>filepath.Join\<close> that builds it.
\<close>

datatype path = filepath_Join string string

datatype MDServer =
    NewMDServerMemory
  | NewMDServerLocal path path path
  | NewMDServerRemote string

datatype BlockServer =
    NewBlockServerMemory
  | NewBlockServerLocal path
  | NewBlockServerRemote string

definition getMDServerAddr :: "string \<Rightarrow> environ \<Rightarrow> string" where
  "getMDServerAddr EnvMDServerAddr env = os_Getenv env EnvMDServerAddr"

definition useLocalMDServer :: "string \<Rightarrow> environ \<Rightarrow> bool" where
  "useLocalMDServer EnvMDServerAddr env = (length (getMDServerAddr EnvMDServerAddr env) = 0)"

definition makeMDServer :: "string \<Rightarrow> environ \<Rightarrow> string option \<Rightarrow> MDServer" where
  "makeMDServer EnvMDServerAddr env serverRootDir =
     (case serverRootDir of
        None \<Rightarrow> NewMDServerMemory
      | Some dir \<Rightarrow>
          if useLocalMDServer EnvMDServerAddr env
          then (let handlePath = filepath_Join dir ''kbfs_handles'';
                    mdPath = filepath_Join dir ''kbfs_md'';
                    revPath = filepath_Join dir ''kbfs_revisions''
                in NewMDServerLocal handlePath mdPath revPath)
          else NewMDServerRemote (getMDServerAddr EnvMDServerAddr env))"

definition makeBlockServer :: "string \<Rightarrow> environ \<Rightarrow> string option \<Rightarrow> BlockServer" where
  "makeBlockServer EnvBServerAddr env serverRootDir =
     (let bServerAddr = os_Getenv env EnvBServerAddr
      in if length bServerAddr = 0
         then (case serverRootDir of
                 None \<Rightarrow> NewBlockServerMemory
               | Some dir \<Rightarrow> NewBlockServerLocal (filepath_Join dir ''kbfs_block''))
         else NewBlockServerRemote bServerAddr)"

subsection \<open>Well-formed key strings\<close>

text \<open>
  What the interface calls a hex-encoded key: a string of even length all of whose
  characters are hexadecimal digits. It is stated independently of the decoder and related
  to it below.
\<close>

definition is_hex_digit :: "char \<Rightarrow> bool" where
  "is_hex_digit c = (c \<in> set ''0123456789abcdefABCDEF'')"

definition valid_hex :: "string \<Rightarrow> bool" where
  "valid_hex s = (even (length s) \<and> (\<forall>c \<in> set s. is_hex_digit c))"

subsection \<open>Example inputs\<close>

text \<open>
  A far end that counts the requests it has served and answers by the block hash, a handler
  on top of it, and a block context. They are the concrete inputs of the examples below.
\<close>

definition ex_decls :: "(string, string) decls" where
  "ex_decls = \<lparr>BlockID_String = (\<lambda>i. i), TlfID_String = (\<lambda>t. t),
               ServerHalf_String = (\<lambda>k. map (\<lambda>x. char_of (unat x)) (ServerHalf k)), ServerHalf_len = 32\<rparr>"

definition ex_client :: "nat GenericClient" where
  "ex_client =
     \<lparr>call_EstablishSession = (\<lambda>arg n. (None, Suc n)),
      call_GetBlock = (\<lambda>bid n.
        if BlockHash bid = ''b1''
        then ((\<lparr>GetBlockRes.BlockKey = ''0a0B'', GetBlockRes.Buf = Some [1, 2, 3]\<rparr>, None), Suc n)
        else if BlockHash bid = ''b2''
        then ((\<lparr>GetBlockRes.BlockKey = ''0g'', GetBlockRes.Buf = Some [4]\<rparr>, None), Suc n)
        else ((\<lparr>GetBlockRes.BlockKey = ''ff'', GetBlockRes.Buf = Some [9]\<rparr>,
               Some (OtherError ''block not found'')), Suc n)),
      call_PutBlock = (\<lambda>arg n. (None, Suc n)),
      call_IncBlockReference = (\<lambda>arg n.
        (if BlockHash (IncBlockReferenceArg.Bid arg) = ''b3''
         then Some (BServerErrorThrottle ''slow down'') else None, Suc n)),
      call_DecBlockReference = (\<lambda>arg n. (None, Suc n))\<rparr>"

definition ex_server :: "nat BlockServerRemote" where
  "ex_server =
     \<lparr>config = \<lparr>KBPKI = \<lparr>GetCurrentToken = (''token'', None), GetCurrentUID = (''uid1'', None)\<rparr>\<rparr>,
      clientFactory = (\<lambda>ctx. ex_client),
      blkSrvAddr = ''bserver.example:443''\<rparr>"

definition ex_ctx :: Context where
  "ex_ctx = \<lparr>Done = None\<rparr>"

definition ex_context :: BlockContext where
  "ex_context = \<lparr>creator = ''alice'', writer = ''bob'', refNonce = [1, 2, 3, 4, 5, 6, 7, 8]\<rparr>"

definition ex_world :: "nat world" where
  "ex_world = \<lparr>remote = 0, issued = []\<rparr>"

section \<open>Properties\<close>

subsection \<open>Auxiliary facts\<close>

lemmas ex_defs = ex_decls_def ex_client_def ex_server_def ex_ctx_def ex_context_def ex_world_def

lemma issue_fst: "fst (issue c f w) = fst (f (remote w))"
  by (simp add: issue_def split: prod.splits)

lemma issue_issued: "issued (snd (issue c f w)) = issued w @ [c]"
  by (simp add: issue_def split: prod.splits)

lemma issue_remote: "remote (snd (issue c f w)) = snd (f (remote w))"
  by (simp add: issue_def split: prod.splits)

lemma copy_zero: "copy (replicate n 0) src = take n src @ replicate (n - length src) 0"
  by (simp add: copy_def Let_def min_def)

lemma copy_same_length: "length src = length dst \<Longrightarrow> copy dst src = src"
  by (simp add: copy_def)

lemma length_copy: "length (copy dst src) = length dst"
  by (simp add: copy_def Let_def min_def)

lemma Get_rpc_error:
  "GetBlock (client b ctx) \<lparr>BlockHash = BlockID_String D id',
      BlockIdCombo.ChargedTo = GetWriter context\<rparr> w = ((res, Some e), w')
   \<Longrightarrow> Get D b ctx id' context w = ((None, zero_ServerHalf D, Some e), w')"
  by (simp add: Get_def)

lemma Get_decode_error:
  "GetBlock (client b ctx) \<lparr>BlockHash = BlockID_String D id',
      BlockIdCombo.ChargedTo = GetWriter context\<rparr> w = ((res, None), w')
   \<Longrightarrow> snd (hex_DecodeString (GetBlockRes.BlockKey res)) = Some e
   \<Longrightarrow> Get D b ctx id' context w = ((None, zero_ServerHalf D, Some e), w')"
  by (auto simp: Get_def Let_def split: prod.splits)

lemma Get_ok:
  "GetBlock (client b ctx) \<lparr>BlockHash = BlockID_String D id',
      BlockIdCombo.ChargedTo = GetWriter context\<rparr> w = ((res, None), w')
   \<Longrightarrow> hex_DecodeString (GetBlockRes.BlockKey res) = (Some kb, None)
   \<Longrightarrow> Get D b ctx id' context w =
         ((GetBlockRes.Buf res,
           \<lparr>ServerHalf = take (ServerHalf_len D) kb @ replicate (ServerHalf_len D - length kb) 0\<rparr>,
           None), w')"
  by (simp add: Get_def Let_def zero_ServerHalf_def copy_zero elems_def)

lemma Get_world: "snd (Get D b ctx id' context w) =
   snd (GetBlock (client b ctx) \<lparr>BlockHash = BlockID_String D id',
      BlockIdCombo.ChargedTo = GetWriter context\<rparr> w)"
  by (simp add: Get_def Let_def split: prod.splits)

lemma hex_DecodeString_cases:
  "(\<exists>kb. hex_DecodeString s = (Some kb, None)) \<or> (\<exists>e. hex_DecodeString s = (None, Some e))"
  by (auto simp: hex_DecodeString_def split: prod.splits)

lemma unat_of_char_byte: "unat (of_char c :: byte) = (of_char c :: nat)"
proof -
  have "(of_char c :: byte) = of_nat (of_char c)" by (simp add: of_nat_of_char)
  moreover have "(of_char c :: nat) mod 256 < 256" by (rule mod_less_divisor) simp
  then have "(of_char c :: nat) < 256" by (simp only: of_char_mod_256)
  ultimately show ?thesis by (simp add: unat_of_nat)
qed

lemma char_eq_nat: "(c = d) = ((of_char c :: nat) = of_char d)"
  by simp

lemma is_hex_digit_nat:
  "is_hex_digit c =
     (let n = (of_char c :: nat) in (48 \<le> n \<and> n \<le> 57) \<or> (97 \<le> n \<and> n \<le> 102) \<or> (65 \<le> n \<and> n \<le> 70))"
  unfolding is_hex_digit_def Let_def
  apply (simp add: char_eq_nat[of c] del: of_char_eq_iff)
  apply arith
  done

lemma fromHexChar_ok: "snd (fromHexChar (of_char c)) = is_hex_digit c"
  unfolding is_hex_digit_nat Let_def fromHexChar_def
  by (simp add: word_le_nat_alt unat_of_char_byte)

lemma decode_pairs_error_kind:
  "snd (decode_pairs src) = Some e \<Longrightarrow> e = ErrLength \<or> (\<exists>c. e = InvalidByteError c)"
  by (induction src arbitrary: e rule: induct_list012)
     (auto split: prod.splits if_splits)

lemma decode_pairs_ok:
  "even (length src) \<Longrightarrow> (snd (decode_pairs src) = None) = (\<forall>x \<in> set src. snd (fromHexChar x))"
  by (induction src rule: induct_list012)
     (auto split: prod.splits if_splits)

lemma decode_pairs_length:
  "snd (decode_pairs src) = None \<Longrightarrow> length (fst (decode_pairs src)) = length src div 2"
  by (induction src rule: induct_list012)
     (auto split: prod.splits if_splits)

lemma hex_DecodeString_error_kind:
  "snd (hex_DecodeString s) = Some e \<Longrightarrow> e = ErrLength \<or> (\<exists>c. e = InvalidByteError c)"
  using decode_pairs_error_kind [of "map of_char s" e]
  by (auto simp: hex_DecodeString_def hex_Decode_def split: prod.splits if_splits)

lemma hex_DecodeString_nil: "(fst (hex_DecodeString s) = None) = (snd (hex_DecodeString s) \<noteq> None)"
  by (auto simp: hex_DecodeString_def split: prod.splits if_splits)

lemma hex_DecodeString_valid: "(snd (hex_DecodeString s) = None) = valid_hex s"
proof (cases "even (length s)")
  case True
  then have "even (length (map of_char s :: byte list))" by simp
  from decode_pairs_ok [OF this] True show ?thesis
    by (auto simp: hex_DecodeString_def hex_Decode_def valid_hex_def fromHexChar_ok
             split: prod.splits if_splits)
next
  case False
  then show ?thesis
    by (auto simp: hex_DecodeString_def hex_Decode_def valid_hex_def odd_iff_mod_2_eq_one
             split: prod.splits)
qed

lemma hex_DecodeString_length:
  "hex_DecodeString s = (Some kb, None) \<Longrightarrow> length kb = length s div 2"
  using decode_pairs_length [of "map of_char s"]
  by (auto simp: hex_DecodeString_def hex_Decode_def split: prod.splits if_splits)

subsection \<open>The claims\<close>

text \<open>
  C1: when the \<open>GetBlock\<close> request of \<open>Get\<close> succeeds and the key string of the answer does
  not decode from hexadecimal, \<open>Get\<close> fails with the decoder's error (the malformed-answer
  class: \<open>ErrLength\<close> or \<open>InvalidByteError\<close>), with nil bytes and the zero key. That error is
  of another kind than the throttle error and than every other transport or store error
  (not found among them).
\<close>

theorem Get_decode_failure_is_malformed:
  assumes "GetBlock (client b ctx) \<lparr>BlockHash = BlockID_String D id',
             BlockIdCombo.ChargedTo = GetWriter context\<rparr> w = ((res, None), w')"
      and "snd (hex_DecodeString (GetBlockRes.BlockKey res)) = Some e"
  shows "Get D b ctx id' context w = ((None, zero_ServerHalf D, Some e), w')
         \<and> (e = ErrLength \<or> (\<exists>c. e = InvalidByteError c))
         \<and> (\<forall>m. e \<noteq> OtherError m \<and> e \<noteq> BServerErrorThrottle m)"
proof -
  from hex_DecodeString_error_kind [OF assms(2)]
  have kind: "e = ErrLength \<or> (\<exists>c. e = InvalidByteError c)" .
  then have "\<forall>m. e \<noteq> OtherError m \<and> e \<noteq> BServerErrorThrottle m" by auto
  with kind Get_decode_error [OF assms] show ?thesis by simp
qed

theorem Get_decode_failure_is_malformed_witness:
  "GetBlock (client ex_server ex_ctx) \<lparr>BlockHash = BlockID_String ex_decls ''b2'',
      BlockIdCombo.ChargedTo = GetWriter ex_context\<rparr> ex_world
     = ((\<lparr>GetBlockRes.BlockKey = ''0g'', GetBlockRes.Buf = Some [4]\<rparr>, None),
        \<lparr>remote = 1, issued = [Rpc_GetBlock \<lparr>BlockHash = ''b2'', BlockIdCombo.ChargedTo = ''bob''\<rparr>]\<rparr>)
   \<and> snd (hex_DecodeString ''0g'') = Some (InvalidByteError 0x67)
   \<and> fst (Get ex_decls ex_server ex_ctx ''b2'' ex_context ex_world)
       = (None, zero_ServerHalf ex_decls, Some (InvalidByteError 0x67))"
proof -
  have h1: "GetBlock (client ex_server ex_ctx) \<lparr>BlockHash = BlockID_String ex_decls ''b2'',
      BlockIdCombo.ChargedTo = GetWriter ex_context\<rparr> ex_world
     = ((\<lparr>GetBlockRes.BlockKey = ''0g'', GetBlockRes.Buf = Some [4]\<rparr>, None),
        \<lparr>remote = 1, issued = [Rpc_GetBlock \<lparr>BlockHash = ''b2'', BlockIdCombo.ChargedTo = ''bob''\<rparr>]\<rparr>)"
    by (simp add: ex_defs GetBlock_def issue_def client_def GetWriter_def)
  have h2: "snd (hex_DecodeString (GetBlockRes.BlockKey
               \<lparr>GetBlockRes.BlockKey = ''0g'', GetBlockRes.Buf = Some [4]\<rparr>)) = Some (InvalidByteError 0x67)"
    by (simp add: hex_DecodeString_def hex_Decode_def fromHexChar_def)
  from Get_decode_failure_is_malformed [OF h1 h2] h1 h2 show ?thesis by simp
qed

text \<open>
  C2, as stated, fails: with no address for the metadata service in the environment and an
  address for the block service, the metadata server is local and the block server is the
  remote client. \<open>makeBlockServer\<close> reads the block service address only.
\<close>

theorem local_metadata_does_not_force_local_blocks:
  "useLocalMDServer ''KEYBASE_MDSERVER_BIND_ADDR''
     [''KEYBASE_BSERVER_BIND_ADDR'' \<mapsto> ''bserver.example:443'']
   \<and> makeMDServer ''KEYBASE_MDSERVER_BIND_ADDR''
       [''KEYBASE_BSERVER_BIND_ADDR'' \<mapsto> ''bserver.example:443''] None = NewMDServerMemory
   \<and> makeBlockServer ''KEYBASE_BSERVER_BIND_ADDR''
       [''KEYBASE_BSERVER_BIND_ADDR'' \<mapsto> ''bserver.example:443''] None
     = NewBlockServerRemote ''bserver.example:443''"
  by (simp add: useLocalMDServer_def getMDServerAddr_def os_Getenv_def makeMDServer_def
        makeBlockServer_def)

text \<open>
  C2, amended: when the address of the metadata service is absent, the metadata server is a
  local one (in memory without a server root directory, on disk with one). The block server
  is chosen by the address of the block service alone: absent, the block server is local
  (in memory or on disk); present, the remote block client is built for that address,
  whatever the address of the metadata service.
\<close>

theorem server_selection:
  "(useLocalMDServer EnvMDServerAddr env \<longrightarrow>
      makeMDServer EnvMDServerAddr env serverRootDir =
        (case serverRootDir of
           None \<Rightarrow> NewMDServerMemory
         | Some dir \<Rightarrow> NewMDServerLocal (filepath_Join dir ''kbfs_handles'')
                         (filepath_Join dir ''kbfs_md'') (filepath_Join dir ''kbfs_revisions'')))
   \<and> (os_Getenv env EnvBServerAddr = [] \<longrightarrow>
      makeBlockServer EnvBServerAddr env serverRootDir =
        (case serverRootDir of
           None \<Rightarrow> NewBlockServerMemory
         | Some dir \<Rightarrow> NewBlockServerLocal (filepath_Join dir ''kbfs_block'')))
   \<and> (os_Getenv env EnvBServerAddr \<noteq> [] \<longrightarrow>
      makeBlockServer EnvBServerAddr env serverRootDir
        = NewBlockServerRemote (os_Getenv env EnvBServerAddr))"
  by (simp add: makeMDServer_def makeBlockServer_def Let_def split: option.splits)

theorem server_selection_witness:
  "useLocalMDServer ''KEYBASE_MDSERVER_BIND_ADDR'' Map.empty
   \<and> makeMDServer ''KEYBASE_MDSERVER_BIND_ADDR'' Map.empty (Some ''/var/kbfs'')
       = NewMDServerLocal (filepath_Join ''/var/kbfs'' ''kbfs_handles'')
           (filepath_Join ''/var/kbfs'' ''kbfs_md'') (filepath_Join ''/var/kbfs'' ''kbfs_revisions'')
   \<and> makeBlockServer ''KEYBASE_BSERVER_BIND_ADDR'' Map.empty (Some ''/var/kbfs'')
       = NewBlockServerLocal (filepath_Join ''/var/kbfs'' ''kbfs_block'')
   \<and> makeBlockServer ''KEYBASE_BSERVER_BIND_ADDR''
       [''KEYBASE_BSERVER_BIND_ADDR'' \<mapsto> ''bserver.example:443''] (Some ''/var/kbfs'')
       = NewBlockServerRemote ''bserver.example:443''"
proof -
  let ?env = "[''KEYBASE_BSERVER_BIND_ADDR'' \<mapsto> ''bserver.example:443'']"
  have h1: "useLocalMDServer ''KEYBASE_MDSERVER_BIND_ADDR'' Map.empty"
    by (simp add: useLocalMDServer_def getMDServerAddr_def os_Getenv_def)
  have h2: "os_Getenv Map.empty ''KEYBASE_BSERVER_BIND_ADDR'' = []"
    by (simp add: os_Getenv_def)
  have h3: "os_Getenv ?env ''KEYBASE_BSERVER_BIND_ADDR'' = ''bserver.example:443''"
    by (simp add: os_Getenv_def)
  from server_selection [of "''KEYBASE_MDSERVER_BIND_ADDR''" Map.empty "Some ''/var/kbfs''"
         "''KEYBASE_BSERVER_BIND_ADDR''"]
       server_selection [of "''KEYBASE_MDSERVER_BIND_ADDR''" ?env "Some ''/var/kbfs''"
         "''KEYBASE_BSERVER_BIND_ADDR''"] h1 h2 h3
  show ?thesis by simp
qed

text \<open>
  C3: with the 8-byte reference nonce of the block context, \<open>AddBlockReference\<close> issues the
  one request \<open>IncBlockReference\<close> and \<open>RemoveBlockReference\<close> the one request
  \<open>DecBlockReference\<close>, each carrying the nonce of the context unchanged, the writer of the
  context as the charged account (the outer \<open>ChargedTo\<close>) and the creator of the context as
  the owner (the \<open>ChargedTo\<close> of the block ID combo).
\<close>

theorem reference_requests_carry_context:
  assumes "length (refNonce context) = 8"
  shows "issued (snd (AddBlockReference D b ctx id' tlfID context w)) =
           issued w @ [Rpc_IncBlockReference
             \<lparr>IncBlockReferenceArg.Bid = \<lparr>BlockHash = BlockID_String D id',
                                           BlockIdCombo.ChargedTo = creator context\<rparr>,
              IncBlockReferenceArg.Nonce = refNonce context,
              IncBlockReferenceArg.Folder = TlfID_String D tlfID,
              IncBlockReferenceArg.ChargedTo = writer context\<rparr>]
         \<and> issued (snd (RemoveBlockReference D b ctx id' tlfID context w)) =
           issued w @ [Rpc_DecBlockReference
             \<lparr>DecBlockReferenceArg.Bid = \<lparr>BlockHash = BlockID_String D id',
                                           BlockIdCombo.ChargedTo = creator context\<rparr>,
              DecBlockReferenceArg.Nonce = refNonce context,
              DecBlockReferenceArg.Folder = TlfID_String D tlfID,
              DecBlockReferenceArg.ChargedTo = writer context\<rparr>]"
proof -
  from assms have "copy (replicate BlockRefNonce_len 0) (refNonce context) = refNonce context"
    by (simp add: copy_same_length BlockRefNonce_len_def)
  then show ?thesis
    by (simp add: AddBlockReference_def RemoveBlockReference_def Let_def
          IncBlockReference_def DecBlockReference_def issue_issued
          GetWriter_def GetCreator_def GetRefNonce_def)
qed

theorem reference_requests_carry_context_witness:
  "length (refNonce ex_context) = 8
   \<and> issued (snd (AddBlockReference ex_decls ex_server ex_ctx ''b1'' ''tlf1'' ex_context ex_world)) =
       [Rpc_IncBlockReference
          \<lparr>IncBlockReferenceArg.Bid = \<lparr>BlockHash = ''b1'', BlockIdCombo.ChargedTo = ''alice''\<rparr>,
           IncBlockReferenceArg.Nonce = [1, 2, 3, 4, 5, 6, 7, 8],
           IncBlockReferenceArg.Folder = ''tlf1'',
           IncBlockReferenceArg.ChargedTo = ''bob''\<rparr>]
   \<and> issued (snd (RemoveBlockReference ex_decls ex_server ex_ctx ''b1'' ''tlf1'' ex_context ex_world)) =
       [Rpc_DecBlockReference
          \<lparr>DecBlockReferenceArg.Bid = \<lparr>BlockHash = ''b1'', BlockIdCombo.ChargedTo = ''alice''\<rparr>,
           DecBlockReferenceArg.Nonce = [1, 2, 3, 4, 5, 6, 7, 8],
           DecBlockReferenceArg.Folder = ''tlf1'',
           DecBlockReferenceArg.ChargedTo = ''bob''\<rparr>]"
proof -
  have h: "length (refNonce ex_context) = 8" by (simp add: ex_context_def)
  from reference_requests_carry_context [OF h, of ex_decls ex_server ex_ctx "''b1''" "''tlf1''" ex_world] h
  show ?thesis by (simp add: ex_decls_def ex_context_def ex_world_def)
qed

text \<open>
  C4: \<open>OnConnect\<close> looks up the session token and then the user ID. If the token lookup
  fails, or the token lookup succeeds and the user ID lookup fails, it returns that error and
  issues no request. If both succeed it issues exactly one request, \<open>EstablishSession\<close>
  with that user ID and that token, and no other request; its result is the result of that
  request, or the cancellation error of the context.
\<close>

theorem OnConnect_establishes_session:
  "(GetCurrentToken (KBPKI (config b)) = (token, Some e)
      \<longrightarrow> OnConnect b ctx cli w = (Some e, w))
   \<and> (GetCurrentToken (KBPKI (config b)) = (token, None)
        \<and> GetCurrentUID (KBPKI (config b)) = (uid, Some e)
      \<longrightarrow> OnConnect b ctx cli w = (Some e, w))
   \<and> (GetCurrentToken (KBPKI (config b)) = (token, None)
        \<and> GetCurrentUID (KBPKI (config b)) = (uid, None)
      \<longrightarrow> issued (snd (OnConnect b ctx cli w))
            = issued w @ [Rpc_EstablishSession \<lparr>User = uid, Sid = token\<rparr>]
          \<and> remote (snd (OnConnect b ctx cli w))
            = snd (call_EstablishSession cli \<lparr>User = uid, Sid = token\<rparr> (remote w))
          \<and> fst (OnConnect b ctx cli w)
            = (case Done ctx of
                 Some c \<Rightarrow> Some c
               | None \<Rightarrow> fst (call_EstablishSession cli \<lparr>User = uid, Sid = token\<rparr> (remote w))))"
  by (auto simp: OnConnect_def Let_def runUnlessCanceled_def EstablishSession_def issue_def
           split: prod.splits option.splits)

theorem OnConnect_establishes_session_witness:
  "OnConnect ex_server ex_ctx ex_client ex_world
     = (None, \<lparr>remote = 1, issued = [Rpc_EstablishSession \<lparr>User = ''uid1'', Sid = ''token''\<rparr>]\<rparr>)
   \<and> OnConnect (ex_server\<lparr>config := \<lparr>KBPKI = \<lparr>GetCurrentToken = ([], Some (OtherError ''no session'')),
                                              GetCurrentUID = (''uid1'', None)\<rparr>\<rparr>\<rparr>)
        ex_ctx ex_client ex_world
     = (Some (OtherError ''no session''), ex_world)
   \<and> OnConnect (ex_server\<lparr>config := \<lparr>KBPKI = \<lparr>GetCurrentToken = (''token'', None),
                                              GetCurrentUID = ([], Some (OtherError ''not logged in''))\<rparr>\<rparr>\<rparr>)
        ex_ctx ex_client ex_world
     = (Some (OtherError ''not logged in''), ex_world)"
proof -
  let ?b1 = "ex_server\<lparr>config := \<lparr>KBPKI = \<lparr>GetCurrentToken = ([], Some (OtherError ''no session'')),
                                              GetCurrentUID = (''uid1'', None)\<rparr>\<rparr>\<rparr>"
  let ?b2 = "ex_server\<lparr>config := \<lparr>KBPKI = \<lparr>GetCurrentToken = (''token'', None),
                                              GetCurrentUID = ([], Some (OtherError ''not logged in''))\<rparr>\<rparr>\<rparr>"
  have t0: "GetCurrentToken (KBPKI (config ex_server)) = (''token'', None)"
    and u0: "GetCurrentUID (KBPKI (config ex_server)) = (''uid1'', None)"
    by (simp_all add: ex_server_def)
  have t1: "GetCurrentToken (KBPKI (config ?b1)) = ([], Some (OtherError ''no session''))"
    by simp
  have t2: "GetCurrentToken (KBPKI (config ?b2)) = (''token'', None)"
    and u2: "GetCurrentUID (KBPKI (config ?b2)) = ([], Some (OtherError ''not logged in''))"
    by simp_all
  from OnConnect_establishes_session [of ex_server "''token''" _ ex_ctx ex_client ex_world "''uid1''"] t0 u0
  have r0: "OnConnect ex_server ex_ctx ex_client ex_world
     = (None, \<lparr>remote = 1, issued = [Rpc_EstablishSession \<lparr>User = ''uid1'', Sid = ''token''\<rparr>]\<rparr>)"
    by (simp add: prod_eq_iff ex_ctx_def ex_client_def ex_world_def)
  from OnConnect_establishes_session [of ?b1 "[]" "OtherError ''no session''" ex_ctx ex_client ex_world] t1
  have r1: "OnConnect ?b1 ex_ctx ex_client ex_world = (Some (OtherError ''no session''), ex_world)"
    by blast
  from OnConnect_establishes_session [of ?b2 "''token''" "OtherError ''not logged in''" ex_ctx ex_client ex_world "[]"] t2 u2
  have r2: "OnConnect ?b2 ex_ctx ex_client ex_world = (Some (OtherError ''not logged in''), ex_world)"
    by blast
  from r0 r1 r2 show ?thesis by simp
qed

text \<open>
  C5: the throttle classification \<open>ShouldThrottle\<close> answers true exactly for an error of the
  server-throttle kind \<open>BServerErrorThrottle\<close>; it answers false for the nil error and for
  every error of another kind (the errors of hex decoding, and every other transport or
  store error).
\<close>

theorem ShouldThrottle_iff_throttle_kind:
  "ShouldThrottle b err = (\<exists>m. err = Some (BServerErrorThrottle m))
   \<and> ShouldThrottle b None = False
   \<and> ShouldThrottle b (Some (OtherError m')) = False
   \<and> ShouldThrottle b (Some (InvalidByteError c)) = False
   \<and> ShouldThrottle b (Some ErrLength) = False"
  by (auto simp: ShouldThrottle_def split: option.splits error.splits)

text \<open>
  C6, as stated, fails: the far end answers block \<open>b1\<close> with the key string \<open>0a0B\<close>, which
  decodes to two bytes, and \<open>Get\<close> succeeds with a server half of 32 bytes, which is not the
  decoding.
\<close>

theorem Get_key_is_not_always_the_decoding:
  "GetBlock (client ex_server ex_ctx) \<lparr>BlockHash = BlockID_String ex_decls ''b1'',
      BlockIdCombo.ChargedTo = GetWriter ex_context\<rparr> ex_world
     = ((\<lparr>GetBlockRes.BlockKey = ''0a0B'', GetBlockRes.Buf = Some [1, 2, 3]\<rparr>, None),
        \<lparr>remote = 1, issued = [Rpc_GetBlock \<lparr>BlockHash = ''b1'', BlockIdCombo.ChargedTo = ''bob''\<rparr>]\<rparr>)
   \<and> hex_DecodeString ''0a0B'' = (Some [0x0a, 0x0b], None)
   \<and> snd (snd (fst (Get ex_decls ex_server ex_ctx ''b1'' ex_context ex_world))) = None
   \<and> ServerHalf (fst (snd (fst (Get ex_decls ex_server ex_ctx ''b1'' ex_context ex_world))))
       \<noteq> [0x0a, 0x0b]"
  by (simp add: ex_defs Get_def GetBlock_def issue_def client_def GetWriter_def
        hex_DecodeString_def hex_Decode_def fromHexChar_def zero_ServerHalf_def
        copy_def elems_def)

text \<open>
  C6, amended: when the \<open>GetBlock\<close> request succeeds and the key string of the answer
  decodes, \<open>Get\<close> returns the bytes of the answer and the server half obtained by copying the
  decoding into the zeroed array of fixed length (the decoding itself when it has exactly
  that length), and the one request it issued carried the string form of the block ID and
  the writer of the context as \<open>ChargedTo\<close>.
\<close>

theorem Get_success_result:
  assumes "GetBlock (client b ctx) \<lparr>BlockHash = BlockID_String D id',
             BlockIdCombo.ChargedTo = writer context\<rparr> w = ((res, None), w')"
      and "hex_DecodeString (GetBlockRes.BlockKey res) = (Some kb, None)"
  shows "fst (Get D b ctx id' context w) =
           (GetBlockRes.Buf res,
            \<lparr>ServerHalf = take (ServerHalf_len D) kb @ replicate (ServerHalf_len D - length kb) 0\<rparr>,
            None)
         \<and> (length kb = ServerHalf_len D \<longrightarrow>
              fst (Get D b ctx id' context w) = (GetBlockRes.Buf res, \<lparr>ServerHalf = kb\<rparr>, None))
         \<and> issued (snd (Get D b ctx id' context w)) =
             issued w @ [Rpc_GetBlock \<lparr>BlockHash = BlockID_String D id',
                                       BlockIdCombo.ChargedTo = writer context\<rparr>]"
proof -
  from assms(1) have g: "GetBlock (client b ctx) \<lparr>BlockHash = BlockID_String D id',
             BlockIdCombo.ChargedTo = GetWriter context\<rparr> w = ((res, None), w')"
    by (simp add: GetWriter_def)
  have "issued (snd (Get D b ctx id' context w)) =
             issued w @ [Rpc_GetBlock \<lparr>BlockHash = BlockID_String D id',
                                       BlockIdCombo.ChargedTo = writer context\<rparr>]"
    by (simp add: Get_world GetBlock_def issue_issued GetWriter_def)
  with Get_ok [OF g assms(2)] show ?thesis by simp
qed

theorem Get_success_result_witness:
  "hex_DecodeString ''0a0B'' = (Some [0x0a, 0x0b], None)
   \<and> Get (ex_decls\<lparr>ServerHalf_len := 2\<rparr>) ex_server ex_ctx ''b1'' ex_context ex_world
       = ((Some [1, 2, 3], \<lparr>ServerHalf = [0x0a, 0x0b]\<rparr>, None),
          \<lparr>remote = 1, issued = [Rpc_GetBlock \<lparr>BlockHash = ''b1'', BlockIdCombo.ChargedTo = ''bob''\<rparr>]\<rparr>)"
proof -
  let ?D = "ex_decls\<lparr>ServerHalf_len := 2\<rparr>"
  let ?res = "\<lparr>GetBlockRes.BlockKey = ''0a0B'', GetBlockRes.Buf = Some [1, 2, 3]\<rparr>"
  let ?w = "\<lparr>remote = Suc 0, issued = [Rpc_GetBlock \<lparr>BlockHash = ''b1'', BlockIdCombo.ChargedTo = ''bob''\<rparr>]\<rparr>"
  have d: "hex_DecodeString (GetBlockRes.BlockKey ?res) = (Some [0x0a, 0x0b], None)"
    by (simp add: hex_DecodeString_def hex_Decode_def fromHexChar_def)
  have g: "GetBlock (client ex_server ex_ctx) \<lparr>BlockHash = BlockID_String ?D ''b1'',
      BlockIdCombo.ChargedTo = writer ex_context\<rparr> ex_world = ((?res, None), ?w)"
    by (simp add: ex_defs GetBlock_def issue_def client_def)
  have l: "length [0x0a, 0x0b :: byte] = ServerHalf_len ?D" by (simp add: ex_decls_def)
  have w: "snd (Get ?D ex_server ex_ctx ''b1'' ex_context ex_world) = ?w"
    using g by (simp add: Get_world GetWriter_def)
  from Get_success_result [OF g d] l w d show ?thesis
    by (simp add: prod_eq_iff)
qed

text \<open>
  C7: \<open>Put\<close> is the one request \<open>PutBlock\<close> carrying the string form of the folder ID, the
  string form of the server half, the bytes as given, the string form of the block ID and
  the writer of the context as \<open>ChargedTo\<close>; its result is the result of that request.
\<close>

theorem Put_issues_PutBlock:
  "Put D b ctx id' tlfID context buf serverHalf w =
     PutBlock (client b ctx)
       \<lparr>PutBlockArg.Bid = \<lparr>BlockHash = BlockID_String D id',
                            BlockIdCombo.ChargedTo = writer context\<rparr>,
        PutBlockArg.Folder = TlfID_String D tlfID,
        PutBlockArg.BlockKey = ServerHalf_String D serverHalf,
        PutBlockArg.Buf = buf\<rparr> w
   \<and> issued (snd (Put D b ctx id' tlfID context buf serverHalf w)) =
       issued w @ [Rpc_PutBlock
         \<lparr>PutBlockArg.Bid = \<lparr>BlockHash = BlockID_String D id',
                              BlockIdCombo.ChargedTo = writer context\<rparr>,
          PutBlockArg.Folder = TlfID_String D tlfID,
          PutBlockArg.BlockKey = ServerHalf_String D serverHalf,
          PutBlockArg.Buf = buf\<rparr>]
   \<and> fst (Put D b ctx id' tlfID context buf serverHalf w) =
       fst (call_PutBlock (clientFactory b ctx)
         \<lparr>PutBlockArg.Bid = \<lparr>BlockHash = BlockID_String D id',
                              BlockIdCombo.ChargedTo = writer context\<rparr>,
          PutBlockArg.Folder = TlfID_String D tlfID,
          PutBlockArg.BlockKey = ServerHalf_String D serverHalf,
          PutBlockArg.Buf = buf\<rparr> (remote w))"
  by (simp add: Put_def Let_def PutBlock_def issue_issued issue_fst GetWriter_def client_def)

text \<open>
  C8: each of \<open>Get\<close>, \<open>Put\<close>, \<open>AddBlockReference\<close> and \<open>RemoveBlockReference\<close> issues exactly
  one request and leaves the far end as that one request left it; \<open>Put\<close>,
  \<open>AddBlockReference\<close> and \<open>RemoveBlockReference\<close> return the result of the request, and
  \<open>Get\<close> returns the error of the request whenever it has one.
\<close>

theorem one_rpc_per_call_error_unchanged:
  "snd (Get D b ctx id' context w)
      = snd (GetBlock (client b ctx) \<lparr>BlockHash = BlockID_String D id',
                 BlockIdCombo.ChargedTo = writer context\<rparr> w)
   \<and> issued (snd (Get D b ctx id' context w))
      = issued w @ [Rpc_GetBlock \<lparr>BlockHash = BlockID_String D id',
                 BlockIdCombo.ChargedTo = writer context\<rparr>]
   \<and> (snd (fst (GetBlock (client b ctx) \<lparr>BlockHash = BlockID_String D id',
                 BlockIdCombo.ChargedTo = writer context\<rparr> w)) = Some e
        \<longrightarrow> snd (snd (fst (Get D b ctx id' context w))) = Some e)
   \<and> (\<exists>arg. Put D b ctx id' tlfID context buf serverHalf w = PutBlock (client b ctx) arg w
          \<and> issued (snd (Put D b ctx id' tlfID context buf serverHalf w))
              = issued w @ [Rpc_PutBlock arg])
   \<and> (\<exists>arg. AddBlockReference D b ctx id' tlfID context w
              = IncBlockReference (client b ctx) arg w
          \<and> issued (snd (AddBlockReference D b ctx id' tlfID context w))
              = issued w @ [Rpc_IncBlockReference arg])
   \<and> (\<exists>arg. RemoveBlockReference D b ctx id' tlfID context w
              = DecBlockReference (client b ctx) arg w
          \<and> issued (snd (RemoveBlockReference D b ctx id' tlfID context w))
              = issued w @ [Rpc_DecBlockReference arg])"
proof -
  let ?bid = "\<lparr>BlockHash = BlockID_String D id', BlockIdCombo.ChargedTo = writer context\<rparr>"
  have g1: "snd (Get D b ctx id' context w) = snd (GetBlock (client b ctx) ?bid w)"
    by (simp add: Get_world GetWriter_def)
  then have g2: "issued (snd (Get D b ctx id' context w)) = issued w @ [Rpc_GetBlock ?bid]"
    by (simp add: GetBlock_def issue_issued)
  have g3: "snd (fst (GetBlock (client b ctx) ?bid w)) = Some e
        \<longrightarrow> snd (snd (fst (Get D b ctx id' context w))) = Some e"
    by (auto simp: Get_def Let_def GetWriter_def split: prod.splits)
  have p: "\<exists>arg. Put D b ctx id' tlfID context buf serverHalf w = PutBlock (client b ctx) arg w
          \<and> issued (snd (Put D b ctx id' tlfID context buf serverHalf w))
              = issued w @ [Rpc_PutBlock arg]"
    by (simp add: Put_def Let_def PutBlock_def issue_issued)
  have a: "\<exists>arg. AddBlockReference D b ctx id' tlfID context w
              = IncBlockReference (client b ctx) arg w
          \<and> issued (snd (AddBlockReference D b ctx id' tlfID context w))
              = issued w @ [Rpc_IncBlockReference arg]"
    by (simp add: AddBlockReference_def Let_def IncBlockReference_def issue_issued)
  have r: "\<exists>arg. RemoveBlockReference D b ctx id' tlfID context w
              = DecBlockReference (client b ctx) arg w
          \<and> issued (snd (RemoveBlockReference D b ctx id' tlfID context w))
              = issued w @ [Rpc_DecBlockReference arg]"
    by (simp add: RemoveBlockReference_def Let_def DecBlockReference_def issue_issued)
  from g1 g2 g3 p a r show ?thesis by blast
qed

theorem one_rpc_per_call_error_unchanged_witness:
  "snd (fst (GetBlock (client ex_server ex_ctx)
          \<lparr>BlockHash = BlockID_String ex_decls ''b9'',
           BlockIdCombo.ChargedTo = writer ex_context\<rparr> ex_world))
     = Some (OtherError ''block not found'')
   \<and> snd (snd (fst (Get ex_decls ex_server ex_ctx ''b9'' ex_context ex_world)))
     = Some (OtherError ''block not found'')
   \<and> issued (snd (Get ex_decls ex_server ex_ctx ''b9'' ex_context ex_world))
     = [Rpc_GetBlock \<lparr>BlockHash = ''b9'', BlockIdCombo.ChargedTo = ''bob''\<rparr>]"
proof -
  have h: "snd (fst (GetBlock (client ex_server ex_ctx)
          \<lparr>BlockHash = BlockID_String ex_decls ''b9'',
           BlockIdCombo.ChargedTo = writer ex_context\<rparr> ex_world))
     = Some (OtherError ''block not found'')"
    by (simp add: ex_defs GetBlock_def issue_def client_def)
  note T = one_rpc_per_call_error_unchanged
         [of ex_decls ex_server ex_ctx "''b9''" ex_context ex_world
             "OtherError ''block not found''" "''tlf1''" None "zero_ServerHalf ex_decls"]
  from T have i: "issued (snd (Get ex_decls ex_server ex_ctx ''b9'' ex_context ex_world))
     = issued ex_world @ [Rpc_GetBlock \<lparr>BlockHash = BlockID_String ex_decls ''b9'',
           BlockIdCombo.ChargedTo = writer ex_context\<rparr>]"
    by (rule conjunct2 [THEN conjunct1])
  from T h have e: "snd (snd (fst (Get ex_decls ex_server ex_ctx ''b9'' ex_context ex_world)))
     = Some (OtherError ''block not found'')"
    by (rule conjunct2 [THEN conjunct2, THEN conjunct1, THEN mp])
  from h e i show ?thesis by (simp add: ex_decls_def ex_context_def ex_world_def)
qed

text \<open>
  C9: when the \<open>GetBlock\<close> request succeeds and the key string of the answer is valid
  hexadecimal, \<open>Get\<close> succeeds whatever the length of the decoding: the server half holds
  the first bytes of the decoding up to the fixed length, followed by zeros where the
  decoding is shorter.
\<close>

theorem Get_valid_hex_key_succeeds:
  assumes "GetBlock (client b ctx) \<lparr>BlockHash = BlockID_String D id',
             BlockIdCombo.ChargedTo = GetWriter context\<rparr> w = ((res, None), w')"
      and "valid_hex (GetBlockRes.BlockKey res)"
  shows "\<exists>kb. hex_DecodeString (GetBlockRes.BlockKey res) = (Some kb, None)
           \<and> length kb = length (GetBlockRes.BlockKey res) div 2
           \<and> Get D b ctx id' context w =
               ((GetBlockRes.Buf res,
                 \<lparr>ServerHalf = take (ServerHalf_len D) kb
                                @ replicate (ServerHalf_len D - length kb) 0\<rparr>,
                 None), w')"
proof -
  from assms(2) have "snd (hex_DecodeString (GetBlockRes.BlockKey res)) = None"
    by (simp add: hex_DecodeString_valid)
  with hex_DecodeString_cases [of "GetBlockRes.BlockKey res"]
  obtain kb where kb: "hex_DecodeString (GetBlockRes.BlockKey res) = (Some kb, None)"
    by auto
  from Get_ok [OF assms(1) kb] hex_DecodeString_length [OF kb] kb show ?thesis by blast
qed

theorem Get_valid_hex_key_succeeds_witness:
  "valid_hex ''0a0B''
   \<and> fst (Get ex_decls ex_server ex_ctx ''b1'' ex_context ex_world)
       = (Some [1, 2, 3], \<lparr>ServerHalf = [0x0a, 0x0b] @ replicate 30 0\<rparr>, None)
   \<and> fst (Get (ex_decls\<lparr>ServerHalf_len := 1\<rparr>) ex_server ex_ctx ''b1'' ex_context ex_world)
       = (Some [1, 2, 3], \<lparr>ServerHalf = [0x0a]\<rparr>, None)"
proof -
  let ?res = "\<lparr>GetBlockRes.BlockKey = ''0a0B'', GetBlockRes.Buf = Some [1, 2, 3]\<rparr>"
  let ?w = "\<lparr>remote = Suc 0, issued = [Rpc_GetBlock \<lparr>BlockHash = ''b1'', BlockIdCombo.ChargedTo = ''bob''\<rparr>]\<rparr>"
  have v: "valid_hex (GetBlockRes.BlockKey ?res)"
    by (simp add: valid_hex_def is_hex_digit_def)
  have d: "hex_DecodeString (GetBlockRes.BlockKey ?res) = (Some [0x0a, 0x0b], None)"
    by (simp add: hex_DecodeString_def hex_Decode_def fromHexChar_def)
  have g1: "GetBlock (client ex_server ex_ctx) \<lparr>BlockHash = BlockID_String ex_decls ''b1'',
      BlockIdCombo.ChargedTo = GetWriter ex_context\<rparr> ex_world = ((?res, None), ?w)"
    by (simp add: ex_defs GetBlock_def issue_def client_def GetWriter_def)
  have g2: "GetBlock (client ex_server ex_ctx)
      \<lparr>BlockHash = BlockID_String (ex_decls\<lparr>ServerHalf_len := 1\<rparr>) ''b1'',
       BlockIdCombo.ChargedTo = GetWriter ex_context\<rparr> ex_world = ((?res, None), ?w)"
    by (simp add: ex_defs GetBlock_def issue_def client_def GetWriter_def)
  from Get_valid_hex_key_succeeds [OF g1 v] d
  have r1: "fst (Get ex_decls ex_server ex_ctx ''b1'' ex_context ex_world)
       = (Some [1, 2, 3], \<lparr>ServerHalf = [0x0a, 0x0b] @ replicate 30 0\<rparr>, None)"
    by (auto simp: ex_decls_def)
  from Get_valid_hex_key_succeeds [OF g2 v] d
  have r2: "fst (Get (ex_decls\<lparr>ServerHalf_len := 1\<rparr>) ex_server ex_ctx ''b1'' ex_context ex_world)
       = (Some [1, 2, 3], \<lparr>ServerHalf = [0x0a]\<rparr>, None)"
    by (auto simp: ex_decls_def)
  from v r1 r2 show ?thesis by simp
qed

text \<open>
  C10: whenever \<open>Get\<close> returns an error, from the request or from decoding the key, it
  returns the nil slice and the zero server half.
\<close>

theorem Get_error_returns_no_partial_result:
  assumes "snd (snd (fst (Get D b ctx id' context w))) \<noteq> None"
  shows "fst (fst (Get D b ctx id' context w)) = None
         \<and> fst (snd (fst (Get D b ctx id' context w))) = zero_ServerHalf D"
  using assms by (auto simp: Get_def Let_def split: prod.splits if_splits)

theorem Get_error_returns_no_partial_result_witness:
  "fst (Get ex_decls ex_server ex_ctx ''b9'' ex_context ex_world)
     = (None, zero_ServerHalf ex_decls, Some (OtherError ''block not found''))
   \<and> fst (Get ex_decls ex_server ex_ctx ''b2'' ex_context ex_world)
     = (None, zero_ServerHalf ex_decls, Some (InvalidByteError 0x67))"
proof -
  have e1: "snd (snd (fst (Get ex_decls ex_server ex_ctx ''b9'' ex_context ex_world)))
             = Some (OtherError ''block not found'')"
    by (simp add: ex_defs Get_def GetBlock_def issue_def client_def GetWriter_def)
  have e2: "snd (snd (fst (Get ex_decls ex_server ex_ctx ''b2'' ex_context ex_world)))
             = Some (InvalidByteError 0x67)"
    by (simp add: ex_defs Get_def GetBlock_def issue_def client_def GetWriter_def
          hex_DecodeString_def hex_Decode_def fromHexChar_def)
  from e1 have n1: "snd (snd (fst (Get ex_decls ex_server ex_ctx ''b9'' ex_context ex_world))) \<noteq> None"
    by simp
  from e2 have n2: "snd (snd (fst (Get ex_decls ex_server ex_ctx ''b2'' ex_context ex_world))) \<noteq> None"
    by simp
  from Get_error_returns_no_partial_result [OF n1] Get_error_returns_no_partial_result [OF n2] e1 e2
  show ?thesis by (simp add: prod_eq_iff)
qed

end
